theory Spec2Isabelle
  imports Complex_Main "HOL-Library.Word"
begin

unbundle bit_operations_syntax

section \<open>The environment of the components\<close>

text \<open>
  The three components run on 32-bit little-endian targets (ESP8266, ESP32):
  \<open>unsigned long\<close> is a 32-bit word, \<open>int16_t\<close> a 16-bit word whose byte at the lower
  address is the less significant one, and \<open>byte\<close> an 8-bit word.
\<close>

type_synonym byte = "8 word"
type_synonym ulong = "32 word"

text \<open>The calls a component makes on the global \<open>Wire\<close> object, in the order made.\<close>

datatype wire_call =
    BeginTransmission byte
  | Write byte
  | EndTransmission
  | RequestFrom byte nat
  | Available
  | Read

text \<open>
  The values handed to \<open>publish_state\<close>, tagged with the sensor that receives them:
  \<open>wetness_sensor\<close> and \<open>temperature_sensor\<close> of \<open>LeafWetness\<close>, and the \<open>Sen0590\<close>
  component itself. \<open>publish_state\<close> takes a \<open>float\<close>. The distance is an \<open>int\<close> between
  \<open>-247\<close> and \<open>65545\<close> (lemma \<open>distance_of_range\<close> below), which a 32-bit \<open>int\<close> and a
  \<open>float\<close> hold exactly. The wetness and the temperature are recorded as the exact
  quotient \<open>ret / 100\<close>; \<open>publish_state\<close> receives that quotient rounded to \<open>float\<close>.
\<close>

datatype publication = Wetness rat | Temperature rat | Distance int

text \<open>
  The fields of a component (\<open>state\<close>, \<open>startRequest\<close>), followed by what \<open>loop()\<close> acts
  on outside the component: the unread bytes of the \<open>Wire\<close> receive buffer, the calls made
  on \<open>Wire\<close> so far and the values published so far.
\<close>

record 'st component =
  state :: 'st
  startRequest :: ulong
  rx :: "byte list"
  calls :: "wire_call list"
  published :: "publication list"

text \<open>
  What the environment answers during one call of \<open>loop()\<close>: the value of \<open>millis()\<close> at
  its first and at its second call (the 32-bit millisecond counter, which wraps around),
  the status returned by \<open>Wire.endTransmission()\<close> (0 is success), and the bytes the sensor
  sends when \<open>Wire.requestFrom\<close> asks for them.
\<close>

record env =
  millis :: ulong
  millis2 :: ulong
  status :: byte
  reply :: "byte list"

subsection \<open>The Wire object\<close>

text \<open>
  \<open>Wire\<close> is the I2C bus object of the Arduino core, outside the repository; the
  specification lists it as the bus transport interface the components consume. Its calls
  are modelled as the Arduino core documents them: \<open>endTransmission()\<close> returns a status
  byte, \<open>requestFrom(a, n)\<close> replaces the receive buffer by at most \<open>n\<close> bytes received
  from the device, \<open>available()\<close> is the number of unread bytes, and \<open>read()\<close> takes the
  next unread byte, or returns \<open>-1\<close> when there is none. Every call is logged.
  \<open>ESP_LOGVV\<close> only writes to the log output and is left out.
\<close>

definition Wire_beginTransmission ::
  "byte \<Rightarrow> ('st, 'z) component_scheme \<Rightarrow> ('st, 'z) component_scheme" where
  "Wire_beginTransmission a c = c\<lparr>calls := calls c @ [BeginTransmission a]\<rparr>"

definition Wire_write ::
  "byte \<Rightarrow> ('st, 'z) component_scheme \<Rightarrow> ('st, 'z) component_scheme" where
  "Wire_write b c = c\<lparr>calls := calls c @ [Write b]\<rparr>"

definition Wire_endTransmission ::
  "env \<Rightarrow> ('st, 'z) component_scheme \<Rightarrow> byte \<times> ('st, 'z) component_scheme" where
  "Wire_endTransmission e c = (status e, c\<lparr>calls := calls c @ [EndTransmission]\<rparr>)"

definition Wire_requestFrom ::
  "env \<Rightarrow> byte \<Rightarrow> nat \<Rightarrow> ('st, 'z) component_scheme \<Rightarrow> ('st, 'z) component_scheme" where
  "Wire_requestFrom e a n c =
     c\<lparr>rx := take n (reply e), calls := calls c @ [RequestFrom a n]\<rparr>"

definition Wire_available ::
  "('st, 'z) component_scheme \<Rightarrow> int \<times> ('st, 'z) component_scheme" where
  "Wire_available c = (int (length (rx c)), c\<lparr>calls := calls c @ [Available]\<rparr>)"

definition Wire_read ::
  "('st, 'z) component_scheme \<Rightarrow> int \<times> ('st, 'z) component_scheme" where
  "Wire_read c =
     (case rx c of
        [] \<Rightarrow> (- 1, c\<lparr>calls := calls c @ [Read]\<rparr>)
      | b # bs \<Rightarrow> (uint b, c\<lparr>rx := bs, calls := calls c @ [Read]\<rparr>))"

definition publish_state ::
  "publication \<Rightarrow> ('st, 'z) component_scheme \<Rightarrow> ('st, 'z) component_scheme" where
  "publish_state p c = c\<lparr>published := published c @ [p]\<rparr>"

section \<open>The leaf wetness component (class LeafWetness)\<close>

datatype LeafWetnessSensorState = REQUEST | WAITING | READY | READ | IDLE

definition address_leaf :: byte where
  "address_leaf = 0x61"

definition wait_period_leaf :: ulong where
  "wait_period_leaf = 300"

text \<open>\<open>LeafWetness::update\<close>.\<close>

definition LeafWetness_update ::
  "LeafWetnessSensorState component \<Rightarrow> LeafWetnessSensorState component" where
  "LeafWetness_update c = c\<lparr>state := REQUEST\<rparr>"

text \<open>
  The two statements \<open>pointer[0] = Wire.read(); pointer[1] = Wire.read();\<close> on the bytes
  of \<open>int16_t ret\<close>: each \<open>int\<close> returned by \<open>read()\<close> is cut to a byte, the first read is
  the low byte, the second the high byte.
\<close>

definition read_int16 ::
  "('st, 'z) component_scheme \<Rightarrow> 16 word \<times> ('st, 'z) component_scheme" where
  "read_int16 c =
     (let (r0, c1) = Wire_read c;
          (r1, c2) = Wire_read c1
      in (word_cat (word_of_int r1 :: byte) (word_of_int r0 :: byte), c2))"

text \<open>The body of \<open>for (int k = 0; k < 2; k++)\<close> with its \<open>switch (k)\<close>.\<close>

definition LeafWetness_for_body ::
  "nat \<Rightarrow> LeafWetnessSensorState component \<Rightarrow> LeafWetnessSensorState component" where
  "LeafWetness_for_body k c =
     (let (ret, c1) = read_int16 c;
          val = rat_of_int (sint ret) / 100
      in if k = 0 then publish_state (Wetness val) c1
         else if k = 1 then publish_state (Temperature val) c1
         else c1)"

text \<open>The statements under \<open>case READ:\<close>.\<close>

definition LeafWetness_case_READ ::
  "LeafWetnessSensorState component \<Rightarrow> LeafWetnessSensorState component" where
  "LeafWetness_case_READ c =
     (let (n, c1) = Wire_available c
      in if n = 4 then (fold LeafWetness_for_body [0..<2] c1)\<lparr>state := IDLE\<rparr>
         else c1)"

text \<open>
  \<open>LeafWetness::loop\<close>. \<open>REG_READ_ST\<close> and \<open>REG_DATA\<close> come from \<open>LeafSens.h\<close> and are
  parameters here. \<open>case READY:\<close> has no \<open>break\<close> and runs on into \<open>case READ:\<close>.
\<close>

definition LeafWetness_loop ::
  "byte \<Rightarrow> byte \<Rightarrow> env \<Rightarrow> LeafWetnessSensorState component \<Rightarrow>
   LeafWetnessSensorState component" where
  "LeafWetness_loop REG_READ_ST REG_DATA e c =
     (case state c of
        REQUEST \<Rightarrow>
          (let c1 = Wire_beginTransmission address_leaf c;
               c2 = Wire_write REG_READ_ST c1;
               (_, c3) = Wire_endTransmission e c2
           in c3\<lparr>state := WAITING, startRequest := millis e\<rparr>)
      | WAITING \<Rightarrow>
          (if wait_period_leaf < millis e - startRequest c then c\<lparr>state := READY\<rparr> else c)
      | READY \<Rightarrow>
          (let c1 = Wire_beginTransmission address_leaf c;
               c2 = Wire_write REG_DATA c1;
               (_, c3) = Wire_endTransmission e c2;
               c4 = Wire_requestFrom e address_leaf 4 c3
           in LeafWetness_case_READ (c4\<lparr>state := READ\<rparr>))
      | READ \<Rightarrow> LeafWetness_case_READ c
      | IDLE \<Rightarrow> c)"

text \<open>The object as constructed: \<open>startRequest = 0UL\<close>, \<open>state = IDLE\<close>, nothing done yet.\<close>

definition LeafWetness_init :: "LeafWetnessSensorState component" where
  "LeafWetness_init =
     \<lparr>state = IDLE, startRequest = 0, rx = [], calls = [], published = []\<rparr>"

section \<open>The laser ranging component, single wait (class Sen0590, first file)\<close>

text \<open>
  Both rangefinder files declare \<open>enum Sen0590SensorState\<close> and \<open>class Sen0590\<close>. The names
  of the first file carry the suffix \<open>_B\<close> here, those of the second the suffix \<open>_C\<close>.
\<close>

datatype Sen0590SensorState_B = REQUEST_B | WAITING_B | READY_B | READ_B | IDLE_B

definition address_sen0590 :: byte where
  "address_sen0590 = 0x74"

definition wait_period_B :: ulong where
  "wait_period_B = 50"

definition Sen0590_B_update ::
  "Sen0590SensorState_B component \<Rightarrow> Sen0590SensorState_B component" where
  "Sen0590_B_update c = c\<lparr>state := REQUEST_B\<rparr>"

text \<open>
  The body of \<open>for (int i = 0; i < 2; i++) buf[i] = Wire.read();\<close> on \<open>int buf[2]\<close>, and
  the loop started from \<open>buf = {0, 0}\<close>.
\<close>

definition Sen0590_for_body ::
  "nat \<Rightarrow> int list \<times> ('st, 'z) component_scheme \<Rightarrow> int list \<times> ('st, 'z) component_scheme" where
  "Sen0590_for_body i bc =
     (let (buf, c) = bc;
          (r, c1) = Wire_read c
      in (buf[i := r], c1))"

definition Sen0590_read_buf ::
  "('st, 'z) component_scheme \<Rightarrow> int list \<times> ('st, 'z) component_scheme" where
  "Sen0590_read_buf c = fold Sen0590_for_body [0..<2] ([0, 0], c)"

text \<open>\<open>int distance = (buf[0] * 0x100 + buf[1] + 10);\<close>\<close>

definition distance_of :: "int list \<Rightarrow> int" where
  "distance_of buf = buf ! 0 * 0x100 + buf ! 1 + 10"

text \<open>\<open>Sen0590::loop\<close> of the first file. \<open>case READ:\<close> does not assign \<open>state\<close>.\<close>

definition Sen0590_B_loop ::
  "env \<Rightarrow> Sen0590SensorState_B component \<Rightarrow> Sen0590SensorState_B component" where
  "Sen0590_B_loop e c =
     (case state c of
        REQUEST_B \<Rightarrow>
          (let c1 = Wire_beginTransmission address_sen0590 c;
               c2 = Wire_write 0x10 c1;
               c3 = Wire_write 0xB0 c2;
               (_, c4) = Wire_endTransmission e c3
           in c4\<lparr>state := WAITING_B, startRequest := millis e\<rparr>)
      | WAITING_B \<Rightarrow>
          (if wait_period_B < millis e - startRequest c then c\<lparr>state := READY_B\<rparr> else c)
      | READY_B \<Rightarrow>
          (let c1 = Wire_beginTransmission address_sen0590 c;
               c2 = Wire_write 0x02 c1;
               (st, c3) = Wire_endTransmission e c2
           in if st \<noteq> 0 then c3
              else (Wire_requestFrom e address_sen0590 2 c3)\<lparr>state := READ_B\<rparr>)
      | READ_B \<Rightarrow>
          (let (n, c1) = Wire_available c
           in if n = 2
              then (let (buf, c2) = Sen0590_read_buf c1
                    in publish_state (Distance (distance_of buf)) c2)
              else c1)
      | IDLE_B \<Rightarrow> c)"

definition Sen0590_B_init :: "Sen0590SensorState_B component" where
  "Sen0590_B_init =
     \<lparr>state = IDLE_B, startRequest = 0, rx = [], calls = [], published = []\<rparr>"

section \<open>The laser ranging component, two waits (class Sen0590, second file)\<close>

datatype Sen0590SensorState_C = REQUEST_C | READY_C | READ_C | IDLE_C

text \<open>The second file adds the field \<open>startRead\<close>.\<close>

record 'st component2 = "'st component" +
  startRead :: ulong

definition request_wait_period :: ulong where
  "request_wait_period = 50"

definition read_wait_period :: ulong where
  "read_wait_period = 20"

definition Sen0590_C_update ::
  "Sen0590SensorState_C component2 \<Rightarrow> Sen0590SensorState_C component2" where
  "Sen0590_C_update c = c\<lparr>state := REQUEST_C\<rparr>"

text \<open>
  \<open>Sen0590::loop\<close> of the second file. \<open>case READY:\<close> calls \<open>millis()\<close> twice, before and
  after the write on the bus.
\<close>

definition Sen0590_C_loop ::
  "env \<Rightarrow> Sen0590SensorState_C component2 \<Rightarrow> Sen0590SensorState_C component2" where
  "Sen0590_C_loop e c =
     (case state c of
        REQUEST_C \<Rightarrow>
          (let c1 = Wire_beginTransmission address_sen0590 c;
               c2 = Wire_write 0x10 c1;
               c3 = Wire_write 0xB0 c2;
               (_, c4) = Wire_endTransmission e c3
           in c4\<lparr>state := READY_C, startRequest := millis e\<rparr>)
      | READY_C \<Rightarrow>
          (if request_wait_period > millis e - startRequest c then c
           else (let c1 = Wire_beginTransmission address_sen0590 c;
                     c2 = Wire_write 0x02 c1;
                     (st, c3) = Wire_endTransmission e c2
                 in if st \<noteq> 0 then c3
                    else c3\<lparr>state := READ_C, startRead := millis2 e\<rparr>))
      | READ_C \<Rightarrow>
          (if read_wait_period > millis e - startRead c then c
           else (let c1 = Wire_requestFrom e address_sen0590 2 c;
                     (buf, c2) = Sen0590_read_buf c1;
                     c3 = publish_state (Distance (distance_of buf)) c2
                 in c3\<lparr>state := IDLE_C\<rparr>))
      | IDLE_C \<Rightarrow> c)"

definition Sen0590_C_init :: "Sen0590SensorState_C component2" where
  "Sen0590_C_init =
     \<lparr>state = IDLE_C, startRequest = 0, rx = [], calls = [], published = [],
      startRead = 0\<rparr>"

section \<open>Reference notions\<close>

text \<open>
  A little-endian signed 16-bit integer, in the words of the specification: the first byte
  is the low one, and values from \<open>32768\<close> on stand for the negative numbers.
\<close>

definition int16_le :: "byte \<Rightarrow> byte \<Rightarrow> int" where
  "int16_le b0 b1 =
     (let u = uint b0 + 256 * uint b1 in if u < 32768 then u else u - 65536)"

text \<open>
  What \<open>Wire.read()\<close> returns for the byte at position \<open>i\<close> of the unread buffer:
  the byte, or \<open>-1\<close> where the buffer has none.
\<close>

definition read_or_minus1 :: "byte list \<Rightarrow> nat \<Rightarrow> int" where
  "read_or_minus1 bs i = (if i < length bs then uint (bs ! i) else - 1)"

section \<open>Auxiliary facts\<close>

lemma upt_0_2: "[0..<2] = [0, Suc 0]"
  by (simp add: upt_rec)

lemma uint_word_cat_bytes:
  "uint (word_cat (hi :: byte) (lo :: byte) :: 16 word) = uint lo + 256 * uint hi"
proof -
  have lo: "0 \<le> uint lo" "uint lo < 256" using uint_lt2p [of lo] by simp_all
  have hi: "0 \<le> uint hi" "uint hi < 256" using uint_lt2p [of hi] by simp_all
  have "uint (word_cat hi lo :: 16 word) = take_bit 16 (concat_bit 8 (uint lo) (uint hi))"
    by (simp add: word_cat_eq' uint_word_of_int_eq)
  also have "concat_bit 8 (uint lo) (uint hi) = uint lo + 256 * uint hi"
    using lo by (simp add: concat_bit_eq take_bit_int_eq_self push_bit_eq_mult)
  also have "take_bit 16 (uint lo + 256 * uint hi) = uint lo + 256 * uint hi"
    using lo hi by (intro take_bit_int_eq_self) auto
  finally show ?thesis .
qed

lemma sint_16_uint:
  "sint (w :: 16 word) = (if uint w < 32768 then uint w else uint w - 65536)"
proof -
  have u: "0 \<le> uint w" "uint w < 65536" using uint_lt2p [of w] by simp_all
  have s: "sint w = (uint w + 32768) mod 65536 - 32768"
    by (simp add: sint_uint signed_take_bit_eq_take_bit_shift take_bit_eq_mod)
  show ?thesis
  proof (cases "uint w < 32768")
    case True
    with u have "(uint w + 32768) mod 65536 = uint w + 32768" by simp
    with s True show ?thesis by simp
  next
    case False
    have "uint w + 32768 = (uint w - 32768) + 65536" by arith
    then have "(uint w + 32768) mod 65536 = (uint w - 32768) mod 65536"
      by (simp only: mod_add_self2)
    also have "\<dots> = uint w - 32768" using u False by simp
    finally show ?thesis using s False by simp
  qed
qed

text \<open>Two reads from a buffer that holds at least two bytes.\<close>

lemma read_int16_two:
  "rx c = b0 # b1 # bs \<Longrightarrow>
   read_int16 c = (word_cat b1 b0, c\<lparr>rx := bs, calls := calls c @ [Read, Read]\<rparr>)"
  by (simp add: read_int16_def Wire_read_def)

text \<open>\<open>case READ:\<close> of the wetness component, on four buffered bytes and otherwise.\<close>

lemma LeafWetness_case_READ_four:
  "rx c = [b0, b1, b2, b3] \<Longrightarrow>
   LeafWetness_case_READ c =
     c\<lparr>state := IDLE, rx := [],
       calls := calls c @ [Available, Read, Read, Read, Read],
       published := published c @
         [Wetness (rat_of_int (sint (word_cat b1 b0 :: 16 word)) / 100),
          Temperature (rat_of_int (sint (word_cat b3 b2 :: 16 word)) / 100)]\<rparr>"
  by (simp add: LeafWetness_case_READ_def Wire_available_def upt_0_2
      LeafWetness_for_body_def read_int16_two publish_state_def)

lemma LeafWetness_case_READ_other:
  "length (rx c) \<noteq> 4 \<Longrightarrow>
   LeafWetness_case_READ c = c\<lparr>calls := calls c @ [Available]\<rparr>"
  by (simp add: LeafWetness_case_READ_def Wire_available_def)

text \<open>The two reads of the rangefinder, whatever the buffer holds.\<close>

lemma Sen0590_read_buf_eq:
  "Sen0590_read_buf c =
     ([read_or_minus1 (rx c) 0, read_or_minus1 (rx c) 1],
      c\<lparr>rx := drop 2 (rx c), calls := calls c @ [Read, Read]\<rparr>)"
proof (cases "rx c")
  case Nil
  then show ?thesis
    by (simp add: Sen0590_read_buf_def upt_0_2 Sen0590_for_body_def Wire_read_def
        read_or_minus1_def)
next
  case (Cons b bs)
  then show ?thesis
    by (cases bs)
       (simp_all add: Sen0590_read_buf_def upt_0_2 Sen0590_for_body_def Wire_read_def
          read_or_minus1_def)
qed

text \<open>
  The values read are between \<open>-1\<close> and \<open>255\<close>, so the distance computed from them fits
  a 32-bit \<open>int\<close> with room to spare.
\<close>

lemma read_or_minus1_range: "- 1 \<le> read_or_minus1 bs i \<and> read_or_minus1 bs i \<le> 255"
proof (cases "i < length bs")
  case True
  have lo: "- 1 \<le> uint (bs ! i)"
    using uint_ge_0 [of "bs ! i"] by linarith
  have hi: "uint (bs ! i) \<le> 255"
    using uint_lt2p [of "bs ! i"] by simp
  from True lo hi show ?thesis by (simp add: read_or_minus1_def)
next
  case False
  then show ?thesis by (simp add: read_or_minus1_def)
qed

lemma distance_of_range:
  "- 247 \<le> distance_of (fst (Sen0590_read_buf c)) \<and>
   distance_of (fst (Sen0590_read_buf c)) \<le> 65545"
  using read_or_minus1_range [of "rx c" 0] read_or_minus1_range [of "rx c" 1]
  by (simp add: Sen0590_read_buf_eq distance_of_def)

text \<open>\<open>loop()\<close> of the wetness component, case by case.\<close>

lemma LeafWetness_loop_REQUEST:
  "state c = REQUEST \<Longrightarrow>
   LeafWetness_loop r1 r2 e c =
     c\<lparr>state := WAITING, startRequest := millis e,
       calls := calls c @ [BeginTransmission 0x61, Write r1, EndTransmission]\<rparr>"
  by (simp add: LeafWetness_loop_def Wire_beginTransmission_def Wire_write_def
      Wire_endTransmission_def address_leaf_def)

lemma LeafWetness_loop_WAITING:
  "state c = WAITING \<Longrightarrow>
   LeafWetness_loop r1 r2 e c =
     (if 300 < millis e - startRequest c then c\<lparr>state := READY\<rparr> else c)"
  by (simp add: LeafWetness_loop_def wait_period_leaf_def)

lemma LeafWetness_loop_READY:
  "state c = READY \<Longrightarrow>
   LeafWetness_loop r1 r2 e c =
     LeafWetness_case_READ
       (c\<lparr>rx := take 4 (reply e),
          calls := calls c @
            [BeginTransmission 0x61, Write r2, EndTransmission, RequestFrom 0x61 4],
          state := READ\<rparr>)"
  by (simp add: LeafWetness_loop_def Wire_beginTransmission_def Wire_write_def
      Wire_endTransmission_def Wire_requestFrom_def address_leaf_def)

lemma LeafWetness_loop_READ:
  "state c = READ \<Longrightarrow> LeafWetness_loop r1 r2 e c = LeafWetness_case_READ c"
  by (simp add: LeafWetness_loop_def)

lemma LeafWetness_loop_IDLE:
  "state c = IDLE \<Longrightarrow> LeafWetness_loop r1 r2 e c = c"
  by (simp add: LeafWetness_loop_def)

text \<open>\<open>loop()\<close> of the rangefinder with a single wait, case by case.\<close>

lemma Sen0590_B_loop_REQUEST:
  "state c = REQUEST_B \<Longrightarrow>
   Sen0590_B_loop e c =
     c\<lparr>state := WAITING_B, startRequest := millis e,
       calls := calls c @
         [BeginTransmission 0x74, Write 0x10, Write 0xB0, EndTransmission]\<rparr>"
  by (simp add: Sen0590_B_loop_def Wire_beginTransmission_def Wire_write_def
      Wire_endTransmission_def address_sen0590_def)

lemma Sen0590_B_loop_WAITING:
  "state c = WAITING_B \<Longrightarrow>
   Sen0590_B_loop e c =
     (if 50 < millis e - startRequest c then c\<lparr>state := READY_B\<rparr> else c)"
  by (simp add: Sen0590_B_loop_def wait_period_B_def)

lemma Sen0590_B_loop_READY:
  "state c = READY_B \<Longrightarrow>
   Sen0590_B_loop e c =
     (if status e \<noteq> 0
      then c\<lparr>calls := calls c @ [BeginTransmission 0x74, Write 0x02, EndTransmission]\<rparr>
      else c\<lparr>state := READ_B, rx := take 2 (reply e),
             calls := calls c @
               [BeginTransmission 0x74, Write 0x02, EndTransmission, RequestFrom 0x74 2]\<rparr>)"
  by (simp add: Sen0590_B_loop_def Wire_beginTransmission_def Wire_write_def
      Wire_endTransmission_def Wire_requestFrom_def address_sen0590_def)

lemma Sen0590_B_loop_READ:
  "state c = READ_B \<Longrightarrow>
   Sen0590_B_loop e c =
     (if length (rx c) = 2
      then c\<lparr>rx := [], calls := calls c @ [Available, Read, Read],
             published := published c @
               [Distance (uint (rx c ! 0) * 256 + uint (rx c ! 1) + 10)]\<rparr>
      else c\<lparr>calls := calls c @ [Available]\<rparr>)"
  by (simp add: Sen0590_B_loop_def Wire_available_def Sen0590_read_buf_eq
      read_or_minus1_def distance_of_def publish_state_def)

lemma Sen0590_B_loop_IDLE:
  "state c = IDLE_B \<Longrightarrow> Sen0590_B_loop e c = c"
  by (simp add: Sen0590_B_loop_def)

text \<open>\<open>loop()\<close> of the rangefinder with two waits, case by case.\<close>

lemma Sen0590_C_loop_REQUEST:
  "state c = REQUEST_C \<Longrightarrow>
   Sen0590_C_loop e c =
     c\<lparr>state := READY_C, startRequest := millis e,
       calls := calls c @
         [BeginTransmission 0x74, Write 0x10, Write 0xB0, EndTransmission]\<rparr>"
  by (simp add: Sen0590_C_loop_def Wire_beginTransmission_def Wire_write_def
      Wire_endTransmission_def address_sen0590_def)

lemma Sen0590_C_loop_READY:
  "state c = READY_C \<Longrightarrow>
   Sen0590_C_loop e c =
     (if millis e - startRequest c < 50 then c
      else if status e \<noteq> 0
      then c\<lparr>calls := calls c @ [BeginTransmission 0x74, Write 0x02, EndTransmission]\<rparr>
      else c\<lparr>state := READ_C, startRead := millis2 e,
             calls := calls c @ [BeginTransmission 0x74, Write 0x02, EndTransmission]\<rparr>)"
  by (simp add: Sen0590_C_loop_def Wire_beginTransmission_def Wire_write_def
      Wire_endTransmission_def address_sen0590_def request_wait_period_def)

lemma Sen0590_C_loop_READ:
  "state c = READ_C \<Longrightarrow>
   Sen0590_C_loop e c =
     (if millis e - startRead c < 20 then c
      else c\<lparr>state := IDLE_C, rx := [],
             calls := calls c @ [RequestFrom 0x74 2, Read, Read],
             published := published c @
               [Distance (read_or_minus1 (take 2 (reply e)) 0 * 256 +
                          read_or_minus1 (take 2 (reply e)) 1 + 10)]\<rparr>)"
  by (simp add: Sen0590_C_loop_def Wire_requestFrom_def Sen0590_read_buf_eq
      distance_of_def publish_state_def read_wait_period_def address_sen0590_def)

lemma Sen0590_C_loop_IDLE:
  "state c = IDLE_C \<Longrightarrow> Sen0590_C_loop e c = c"
  by (simp add: Sen0590_C_loop_def)

text \<open>Only \<open>update()\<close> sets the state to \<open>REQUEST\<close>: \<open>loop()\<close> never does.\<close>

lemma LeafWetness_case_READ_state:
  "state (LeafWetness_case_READ c) = (if length (rx c) = 4 then IDLE else state c)"
  by (simp add: LeafWetness_case_READ_def Wire_available_def)

lemma LeafWetness_loop_not_REQUEST:
  "state c \<noteq> REQUEST \<Longrightarrow> state (LeafWetness_loop r1 r2 e c) \<noteq> REQUEST"
  by (cases "state c")
     (simp_all add: LeafWetness_loop_WAITING LeafWetness_loop_READY LeafWetness_loop_READ
        LeafWetness_loop_IDLE LeafWetness_case_READ_state)

lemma LeafWetness_fold_not_REQUEST:
  "state c \<noteq> REQUEST \<Longrightarrow> state (fold (LeafWetness_loop r1 r2) es c) \<noteq> REQUEST"
  by (induction es arbitrary: c) (simp_all add: LeafWetness_loop_not_REQUEST)

lemma Sen0590_B_loop_not_REQUEST:
  "state c \<noteq> REQUEST_B \<Longrightarrow> state (Sen0590_B_loop e c) \<noteq> REQUEST_B"
  by (cases "state c")
     (simp_all add: Sen0590_B_loop_WAITING Sen0590_B_loop_READY Sen0590_B_loop_READ
        Sen0590_B_loop_IDLE)

lemma Sen0590_B_fold_not_REQUEST:
  "state c \<noteq> REQUEST_B \<Longrightarrow> state (fold Sen0590_B_loop es c) \<noteq> REQUEST_B"
  by (induction es arbitrary: c) (simp_all add: Sen0590_B_loop_not_REQUEST)

lemma Sen0590_C_loop_not_REQUEST:
  "state c \<noteq> REQUEST_C \<Longrightarrow> state (Sen0590_C_loop e c) \<noteq> REQUEST_C"
  by (cases "state c")
     (simp_all add: Sen0590_C_loop_READY Sen0590_C_loop_READ Sen0590_C_loop_IDLE)

lemma Sen0590_C_fold_not_REQUEST:
  "state c \<noteq> REQUEST_C \<Longrightarrow> state (fold Sen0590_C_loop es c) \<noteq> REQUEST_C"
  by (induction es arbitrary: c) (simp_all add: Sen0590_C_loop_not_REQUEST)

text \<open>Repeated calls of \<open>loop()\<close> in \<open>IDLE\<close>, and in \<open>READ\<close> on a wrong byte count.\<close>

lemma LeafWetness_fold_IDLE:
  "state c = IDLE \<Longrightarrow> fold (LeafWetness_loop r1 r2) es c = c"
  by (induction es) (simp_all add: LeafWetness_loop_IDLE)

lemma Sen0590_B_fold_IDLE:
  "state c = IDLE_B \<Longrightarrow> fold Sen0590_B_loop es c = c"
  by (induction es) (simp_all add: Sen0590_B_loop_IDLE)

lemma Sen0590_C_fold_IDLE:
  "state c = IDLE_C \<Longrightarrow> fold Sen0590_C_loop es c = c"
  by (induction es) (simp_all add: Sen0590_C_loop_IDLE)

lemma LeafWetness_fold_READ:
  "state c = READ \<Longrightarrow> length (rx c) \<noteq> 4 \<Longrightarrow>
   fold (LeafWetness_loop r1 r2) es c =
     c\<lparr>calls := calls c @ replicate (length es) Available\<rparr>"
proof (induction es arbitrary: c)
  case Nil
  then show ?case by simp
next
  case (Cons e es)
  let ?c = "c\<lparr>calls := calls c @ [Available]\<rparr>"
  from Cons.prems have step: "LeafWetness_loop r1 r2 e c = ?c"
    by (simp add: LeafWetness_loop_READ LeafWetness_case_READ_other)
  from Cons.prems have "state ?c = READ" "length (rx ?c) \<noteq> 4" by simp_all
  from Cons.IH [OF this] step show ?case by simp
qed

lemma Sen0590_B_fold_READ:
  "state c = READ_B \<Longrightarrow> length (rx c) \<noteq> 2 \<Longrightarrow>
   fold Sen0590_B_loop es c = c\<lparr>calls := calls c @ replicate (length es) Available\<rparr>"
proof (induction es arbitrary: c)
  case Nil
  then show ?case by simp
next
  case (Cons e es)
  let ?c = "c\<lparr>calls := calls c @ [Available]\<rparr>"
  from Cons.prems have step: "Sen0590_B_loop e c = ?c"
    by (simp add: Sen0590_B_loop_READ)
  from Cons.prems have "state ?c = READ_B" "length (rx ?c) \<noteq> 2" by simp_all
  from Cons.IH [OF this] step show ?case by simp
qed

section \<open>The claims\<close>

text \<open>
  C1, as the code has it. In state \<open>WAITING\<close>, with \<open>e = millis() - startRequest\<close> computed
  on 32-bit unsigned words, \<open>loop()\<close> of the wetness component and of the rangefinder
  with a single wait leaves everything as it is when \<open>e \<le> wait_period\<close>, and only sets
  the state to \<open>READY\<close> when \<open>e > wait_period\<close>: the boundary \<open>e = wait_period\<close> still
  waits. \<open>wait_period\<close> is 300 for the wetness component and 50 for the rangefinder.
\<close>

theorem C1_waiting_strict:
  "wait_period_leaf = 300 \<and> wait_period_B = 50 \<and>
   (state c = WAITING \<longrightarrow>
      (millis e - startRequest c \<le> wait_period_leaf \<longrightarrow>
         LeafWetness_loop r1 r2 e c = c) \<and>
      (wait_period_leaf < millis e - startRequest c \<longrightarrow>
         LeafWetness_loop r1 r2 e c = c\<lparr>state := READY\<rparr>)) \<and>
   (state d = WAITING_B \<longrightarrow>
      (millis e - startRequest d \<le> wait_period_B \<longrightarrow>
         Sen0590_B_loop e d = d) \<and>
      (wait_period_B < millis e - startRequest d \<longrightarrow>
         Sen0590_B_loop e d = d\<lparr>state := READY_B\<rparr>))"
  by (auto simp add: LeafWetness_loop_WAITING Sen0590_B_loop_WAITING
      wait_period_leaf_def wait_period_B_def)

text \<open>
  C1 at concrete inputs. Started at 1000, the wetness component still waits at 1300 and is
  ready at 1301; started at 1250, the rangefinder still waits at 1300 and is ready at 1301.
  Across the wrap of the counter: at \<open>millis() = 5\<close> the wetness component started at
  4294967000 is ready (301 ms), the rangefinder started at 4294967251 still waits (50 ms).
\<close>

theorem C1_waiting_strict_witness:
  "LeafWetness_loop 1 9 \<lparr>millis = 1300, millis2 = 1300, status = 0, reply = []\<rparr>
     \<lparr>state = WAITING, startRequest = 1000, rx = [], calls = [], published = []\<rparr>
   = \<lparr>state = WAITING, startRequest = 1000, rx = [], calls = [], published = []\<rparr> \<and>
   Sen0590_B_loop \<lparr>millis = 1300, millis2 = 1300, status = 0, reply = []\<rparr>
     \<lparr>state = WAITING_B, startRequest = 1250, rx = [], calls = [], published = []\<rparr>
   = \<lparr>state = WAITING_B, startRequest = 1250, rx = [], calls = [], published = []\<rparr> \<and>
   LeafWetness_loop 1 9 \<lparr>millis = 1301, millis2 = 1301, status = 0, reply = []\<rparr>
     \<lparr>state = WAITING, startRequest = 1000, rx = [], calls = [], published = []\<rparr>
   = \<lparr>state = READY, startRequest = 1000, rx = [], calls = [], published = []\<rparr> \<and>
   Sen0590_B_loop \<lparr>millis = 1301, millis2 = 1301, status = 0, reply = []\<rparr>
     \<lparr>state = WAITING_B, startRequest = 1250, rx = [], calls = [], published = []\<rparr>
   = \<lparr>state = READY_B, startRequest = 1250, rx = [], calls = [], published = []\<rparr> \<and>
   LeafWetness_loop 1 9 \<lparr>millis = 5, millis2 = 5, status = 0, reply = []\<rparr>
     \<lparr>state = WAITING, startRequest = 4294967000, rx = [], calls = [], published = []\<rparr>
   = \<lparr>state = READY, startRequest = 4294967000, rx = [], calls = [], published = []\<rparr> \<and>
   Sen0590_B_loop \<lparr>millis = 5, millis2 = 5, status = 0, reply = []\<rparr>
     \<lparr>state = WAITING_B, startRequest = 4294967251, rx = [], calls = [], published = []\<rparr>
   = \<lparr>state = WAITING_B, startRequest = 4294967251, rx = [], calls = [], published = []\<rparr>"
  (is "?A1 \<and> ?B1 \<and> ?A2 \<and> ?B2 \<and> ?A3 \<and> ?B3")
proof -
  have at_1300: "?A1 \<and> ?B1"
    using C1_waiting_strict [of
      "\<lparr>state = WAITING, startRequest = 1000, rx = [], calls = [], published = []\<rparr>"
      "\<lparr>millis = 1300, millis2 = 1300, status = 0, reply = []\<rparr>" 1 9
      "\<lparr>state = WAITING_B, startRequest = 1250, rx = [], calls = [], published = []\<rparr>"]
    by (simp add: wait_period_leaf_def wait_period_B_def)
  have at_1301: "?A2 \<and> ?B2"
    using C1_waiting_strict [of
      "\<lparr>state = WAITING, startRequest = 1000, rx = [], calls = [], published = []\<rparr>"
      "\<lparr>millis = 1301, millis2 = 1301, status = 0, reply = []\<rparr>" 1 9
      "\<lparr>state = WAITING_B, startRequest = 1250, rx = [], calls = [], published = []\<rparr>"]
    by (simp add: wait_period_leaf_def wait_period_B_def)
  have wrapped: "?A3 \<and> ?B3"
    using C1_waiting_strict [of
      "\<lparr>state = WAITING, startRequest = 4294967000, rx = [], calls = [], published = []\<rparr>"
      "\<lparr>millis = 5, millis2 = 5, status = 0, reply = []\<rparr>" 1 9
      "\<lparr>state = WAITING_B, startRequest = 4294967251, rx = [], calls = [],
        published = []\<rparr>"]
    by (simp add: wait_period_leaf_def wait_period_B_def)
  from at_1300 at_1301 wrapped show ?thesis by blast
qed

text \<open>
  C1 as stated fails at the boundary: with exactly \<open>wait_period\<close> elapsed (300 ms for the
  wetness component, 50 ms for the rangefinder) the state after \<open>loop()\<close> is still
  \<open>WAITING\<close>, not \<open>READY\<close>.
\<close>

theorem C1_boundary_counterexample:
  "millis \<lparr>millis = 1300, millis2 = 1300, status = 0, reply = []\<rparr> - 1000 = wait_period_leaf \<and>
   state (LeafWetness_loop 1 9 \<lparr>millis = 1300, millis2 = 1300, status = 0, reply = []\<rparr>
     \<lparr>state = WAITING, startRequest = 1000, rx = [], calls = [], published = []\<rparr>)
   = WAITING \<and>
   millis \<lparr>millis = 1050, millis2 = 1050, status = 0, reply = []\<rparr> - 1000 = wait_period_B \<and>
   state (Sen0590_B_loop \<lparr>millis = 1050, millis2 = 1050, status = 0, reply = []\<rparr>
     \<lparr>state = WAITING_B, startRequest = 1000, rx = [], calls = [], published = []\<rparr>)
   = WAITING_B"
  by (simp add: LeafWetness_loop_def Sen0590_B_loop_def wait_period_leaf_def wait_period_B_def)

text \<open>
  C2. In each of the three components \<open>update()\<close> sets the state to \<open>REQUEST\<close> whatever
  the state was, and changes nothing else. A second \<open>update()\<close> adds nothing (nothing is
  queued), and the next \<open>loop()\<close> runs the request case whatever was in progress before.
\<close>

theorem C2_update_sets_REQUEST:
  "state (LeafWetness_update c) = REQUEST \<and>
   state (Sen0590_B_update d) = REQUEST_B \<and>
   state (Sen0590_C_update x) = REQUEST_C \<and>
   LeafWetness_update c = c\<lparr>state := REQUEST\<rparr> \<and>
   Sen0590_B_update d = d\<lparr>state := REQUEST_B\<rparr> \<and>
   Sen0590_C_update x = x\<lparr>state := REQUEST_C\<rparr> \<and>
   LeafWetness_update (LeafWetness_update c) = LeafWetness_update c \<and>
   Sen0590_B_update (Sen0590_B_update d) = Sen0590_B_update d \<and>
   Sen0590_C_update (Sen0590_C_update x) = Sen0590_C_update x \<and>
   LeafWetness_loop r1 r2 e (LeafWetness_update c) =
     c\<lparr>state := WAITING, startRequest := millis e,
       calls := calls c @ [BeginTransmission 0x61, Write r1, EndTransmission]\<rparr> \<and>
   Sen0590_B_loop e (Sen0590_B_update d) =
     d\<lparr>state := WAITING_B, startRequest := millis e,
       calls := calls d @
         [BeginTransmission 0x74, Write 0x10, Write 0xB0, EndTransmission]\<rparr> \<and>
   Sen0590_C_loop e (Sen0590_C_update x) =
     x\<lparr>state := READY_C, startRequest := millis e,
       calls := calls x @
         [BeginTransmission 0x74, Write 0x10, Write 0xB0, EndTransmission]\<rparr>"
  by (simp add: LeafWetness_update_def Sen0590_B_update_def Sen0590_C_update_def
      LeafWetness_loop_REQUEST Sen0590_B_loop_REQUEST Sen0590_C_loop_REQUEST)

text \<open>
  C3 at the input where the code departs from it. The rangefinder with a single wait, in
  state \<open>READ\<close> with exactly the two expected bytes \<open>0x01, 0x2C\<close> buffered, reads them and
  publishes 310, but its state after \<open>loop()\<close> is still \<open>READ\<close>: \<open>case READ:\<close> of that
  file never assigns \<open>IDLE\<close>. The wetness component, on its four expected bytes, does
  end in \<open>IDLE\<close>.
\<close>

theorem C3_sen0590_stays_READ:
  "Sen0590_B_loop \<lparr>millis = 1060, millis2 = 1060, status = 0, reply = []\<rparr>
     \<lparr>state = READ_B, startRequest = 1000, rx = [0x01, 0x2C], calls = [], published = []\<rparr>
   = \<lparr>state = READ_B, startRequest = 1000, rx = [],
      calls = [Available, Read, Read], published = [Distance 310]\<rparr> \<and>
   LeafWetness_loop 1 9 \<lparr>millis = 1400, millis2 = 1400, status = 0, reply = []\<rparr>
     \<lparr>state = READ, startRequest = 1000, rx = [0x10, 0x00, 0xC8, 0x00], calls = [],
      published = []\<rparr>
   = \<lparr>state = IDLE, startRequest = 1000, rx = [],
      calls = [Available, Read, Read, Read, Read],
      published = [Wetness (16 / 100), Temperature 2]\<rparr>"
  by (simp add: Sen0590_B_loop_READ LeafWetness_loop_READ LeafWetness_case_READ_four
      sint_16_uint uint_word_cat_bytes)

text \<open>
  C4. \<open>loop()\<close> of the wetness component decodes four bytes \<open>b0, b1, b2, b3\<close> in the call
  that requests them: entered in state \<open>READY\<close>, with the sensor answering
  \<open>requestFrom\<close> with these four bytes, it writes the read address, requests and reads
  all four, publishes exactly two values, first the little-endian signed 16-bit integer
  \<open>(b0, b1)\<close> divided by 100 on the wetness sensor, then \<open>(b2, b3)\<close> divided by 100 on the
  temperature sensor, and ends in \<open>IDLE\<close>. Entered in state \<open>READ\<close> with the four bytes
  already buffered, it reads and publishes them in the same way. The values are the exact
  quotients, before the rounding to \<open>float\<close>.
\<close>

theorem C4_wetness_decode:
  "(state c = READY \<and> take 4 (reply e) = [b0, b1, b2, b3] \<longrightarrow>
      LeafWetness_loop r1 r2 e c =
        c\<lparr>state := IDLE, rx := [],
          calls := calls c @
            [BeginTransmission 0x61, Write r2, EndTransmission, RequestFrom 0x61 4,
             Available, Read, Read, Read, Read],
          published := published c @
            [Wetness (rat_of_int (int16_le b0 b1) / 100),
             Temperature (rat_of_int (int16_le b2 b3) / 100)]\<rparr>) \<and>
   (state c = READ \<and> rx c = [b0, b1, b2, b3] \<longrightarrow>
      LeafWetness_loop r1 r2 e c =
        c\<lparr>state := IDLE, rx := [],
          calls := calls c @ [Available, Read, Read, Read, Read],
          published := published c @
            [Wetness (rat_of_int (int16_le b0 b1) / 100),
             Temperature (rat_of_int (int16_le b2 b3) / 100)]\<rparr>)"
  by (simp add: LeafWetness_loop_READY LeafWetness_loop_READ LeafWetness_case_READ_four
      int16_le_def sint_16_uint uint_word_cat_bytes Let_def)

text \<open>
  C4 on a whole measurement, from the component as constructed: \<open>update()\<close>, then
  \<open>loop()\<close> at 1000 (request), at 1301 (the wait is over) and at 1302, where the sensor
  answers with the bytes \<open>0x10, 0x00, 0xC8, 0x00\<close>: wetness \<open>16 / 100\<close>, temperature
  \<open>200 / 100 = 2\<close>. On the answer \<open>0xF0, 0xFF, 0x18, 0xFC\<close> both values are negative:
  \<open>-16 / 100\<close> and \<open>-1000 / 100 = -10\<close>. The same bytes found buffered in state \<open>READ\<close>
  give the same publications.
\<close>

theorem C4_wetness_decode_witness:
  "LeafWetness_loop 1 9
     \<lparr>millis = 1302, millis2 = 1302, status = 0, reply = [0x10, 0x00, 0xC8, 0x00]\<rparr>
     (LeafWetness_loop 1 9 \<lparr>millis = 1301, millis2 = 1301, status = 0, reply = []\<rparr>
       (LeafWetness_loop 1 9 \<lparr>millis = 1000, millis2 = 1000, status = 0, reply = []\<rparr>
         (LeafWetness_update LeafWetness_init)))
   = \<lparr>state = IDLE, startRequest = 1000, rx = [],
      calls = [BeginTransmission 0x61, Write 1, EndTransmission,
               BeginTransmission 0x61, Write 9, EndTransmission, RequestFrom 0x61 4,
               Available, Read, Read, Read, Read],
      published = [Wetness (16 / 100), Temperature 2]\<rparr> \<and>
   published (LeafWetness_loop 1 9
     \<lparr>millis = 1302, millis2 = 1302, status = 0, reply = [0xF0, 0xFF, 0x18, 0xFC]\<rparr>
     \<lparr>state = READY, startRequest = 1000, rx = [],
      calls = [BeginTransmission 0x61, Write 1, EndTransmission], published = []\<rparr>)
   = [Wetness (- 16 / 100), Temperature (- 10)] \<and>
   LeafWetness_loop 1 9 \<lparr>millis = 1400, millis2 = 1400, status = 0, reply = []\<rparr>
     \<lparr>state = READ, startRequest = 1000, rx = [0x10, 0x00, 0xC8, 0x00], calls = [],
      published = []\<rparr>
   = \<lparr>state = IDLE, startRequest = 1000, rx = [],
      calls = [Available, Read, Read, Read, Read],
      published = [Wetness (16 / 100), Temperature 2]\<rparr>"
  (is "?run \<and> ?neg \<and> ?buffered")
proof -
  let ?ready = "\<lparr>state = READY, startRequest = 1000, rx = [],
      calls = [BeginTransmission 0x61, Write 1, EndTransmission], published = []\<rparr>"
  let ?e = "\<lparr>millis = 1302, millis2 = 1302, status = 0, reply = [0x10, 0x00, 0xC8, 0x00]\<rparr>"
  let ?en = "\<lparr>millis = 1302, millis2 = 1302, status = 0, reply = [0xF0, 0xFF, 0x18, 0xFC]\<rparr>"
  let ?c = "\<lparr>state = READ, startRequest = 1000, rx = [0x10, 0x00, 0xC8, 0x00], calls = [],
      published = []\<rparr>"
  let ?idle_bus = "\<lparr>millis = 1400, millis2 = 1400, status = 0, reply = []\<rparr>"
  have reached:
    "LeafWetness_loop 1 9 \<lparr>millis = 1301, millis2 = 1301, status = 0, reply = []\<rparr>
       (LeafWetness_loop 1 9 \<lparr>millis = 1000, millis2 = 1000, status = 0, reply = []\<rparr>
         (LeafWetness_update LeafWetness_init)) = ?ready"
    by (simp add: LeafWetness_update_def LeafWetness_init_def LeafWetness_loop_def
        Wire_beginTransmission_def Wire_write_def Wire_endTransmission_def
        address_leaf_def wait_period_leaf_def)
  have answered: "state ?ready = READY \<and> take 4 (reply ?e) = [0x10, 0x00, 0xC8, 0x00]"
    by simp
  have answered_neg: "state ?ready = READY \<and> take 4 (reply ?en) = [0xF0, 0xFF, 0x18, 0xFC]"
    by simp
  have buffered: "state ?c = READ \<and> rx ?c = [0x10, 0x00, 0xC8, 0x00]"
    by simp
  have "LeafWetness_loop 1 9 ?e ?ready
     = \<lparr>state = IDLE, startRequest = 1000, rx = [],
        calls = [BeginTransmission 0x61, Write 1, EndTransmission,
                 BeginTransmission 0x61, Write 9, EndTransmission, RequestFrom 0x61 4,
                 Available, Read, Read, Read, Read],
        published = [Wetness (16 / 100), Temperature 2]\<rparr>"
    using C4_wetness_decode [of ?ready ?e "0x10" "0x00" "0xC8" "0x00" 1 9,
        THEN conjunct1, rule_format, OF answered]
    by (simp add: int16_le_def)
  with reached have run: ?run
    by (simp only:)
  have neg: ?neg
    using C4_wetness_decode [of ?ready ?en "0xF0" "0xFF" "0x18" "0xFC" 1 9,
        THEN conjunct1, rule_format, OF answered_neg]
    by (simp add: int16_le_def)
  have buf: ?buffered
    using C4_wetness_decode [of ?c ?idle_bus "0x10" "0x00" "0xC8" "0x00" 1 9,
        THEN conjunct2, rule_format, OF buffered]
    by (simp add: int16_le_def)
  from run neg buf show ?thesis by blast
qed

text \<open>
  C5. Both rangefinder files publish \<open>high * 256 + low + 10\<close> for the two bytes
  \<open>high, low\<close>, as one value and for every byte pair. The file with a single wait does so
  in state \<open>READ\<close> when exactly these two bytes are buffered; the file with two waits does
  so in state \<open>READ\<close> once \<open>read_wait_period\<close> has elapsed and the sensor answers
  \<open>requestFrom\<close> with these two bytes.
\<close>

theorem C5_distance_decode:
  "(state d = READ_B \<and> rx d = [high, low] \<longrightarrow>
      Sen0590_B_loop e d =
        d\<lparr>rx := [], calls := calls d @ [Available, Read, Read],
          published := published d @ [Distance (uint high * 256 + uint low + 10)]\<rparr>) \<and>
   (state x = READ_C \<and> read_wait_period \<le> millis e - startRead x \<and>
    reply e = [high, low] \<longrightarrow>
      Sen0590_C_loop e x =
        x\<lparr>state := IDLE_C, rx := [],
          calls := calls x @ [RequestFrom 0x74 2, Read, Read],
          published := published x @ [Distance (uint high * 256 + uint low + 10)]\<rparr>)"
  by (simp add: Sen0590_B_loop_READ Sen0590_C_loop_READ read_or_minus1_def
      read_wait_period_def not_less [symmetric])

text \<open>C5 on the bytes \<open>0x01, 0x2C\<close>: both files publish \<open>1 * 256 + 44 + 10 = 310\<close>.\<close>

theorem C5_distance_decode_witness:
  "published (Sen0590_B_loop \<lparr>millis = 1060, millis2 = 1060, status = 0, reply = [0x01, 0x2C]\<rparr>
     \<lparr>state = READ_B, startRequest = 1000, rx = [0x01, 0x2C], calls = [], published = []\<rparr>)
   = [Distance 310] \<and>
   Sen0590_C_loop \<lparr>millis = 1060, millis2 = 1060, status = 0, reply = [0x01, 0x2C]\<rparr>
     \<lparr>state = READ_C, startRequest = 1000, rx = [], calls = [], published = [],
      startRead = 1040\<rparr>
   = \<lparr>state = IDLE_C, startRequest = 1000, rx = [],
      calls = [RequestFrom 0x74 2, Read, Read], published = [Distance 310],
      startRead = 1040\<rparr>"
  using C5_distance_decode [of
    "\<lparr>state = READ_B, startRequest = 1000, rx = [0x01, 0x2C], calls = [], published = []\<rparr>"
    "0x01" "0x2C"
    "\<lparr>millis = 1060, millis2 = 1060, status = 0, reply = [0x01, 0x2C]\<rparr>"
    "\<lparr>state = READ_C, startRequest = 1000, rx = [], calls = [], published = [],
      startRead = 1040\<rparr>"]
  by (simp add: read_wait_period_def)

text \<open>
  C6, as the code has it. Only the two rangefinder files test the status of
  \<open>Wire.endTransmission()\<close> after the write of the read address \<open>0x02\<close>. When it is not
  0, \<open>loop()\<close> returns with nothing changed but the three calls made on the bus: state,
  \<open>startRequest\<close>, \<open>startRead\<close>, receive buffer and publications are as before. The
  next \<open>loop()\<close> makes the same write again, and moves on to \<open>READ\<close> when that one
  succeeds; in the file with two waits the retry comes after the same test of
  \<open>request_wait_period\<close> against the unchanged \<open>startRequest\<close>.
\<close>

theorem C6_read_address_failure:
  "(state d = READY_B \<and> status e \<noteq> 0 \<longrightarrow>
      Sen0590_B_loop e d =
        d\<lparr>calls := calls d @ [BeginTransmission 0x74, Write 0x02, EndTransmission]\<rparr> \<and>
      (status e' \<noteq> 0 \<longrightarrow>
         Sen0590_B_loop e' (Sen0590_B_loop e d) =
           d\<lparr>calls := calls d @
                [BeginTransmission 0x74, Write 0x02, EndTransmission,
                 BeginTransmission 0x74, Write 0x02, EndTransmission]\<rparr>) \<and>
      (status e' = 0 \<longrightarrow>
         Sen0590_B_loop e' (Sen0590_B_loop e d) =
           d\<lparr>state := READ_B, rx := take 2 (reply e'),
             calls := calls d @
                [BeginTransmission 0x74, Write 0x02, EndTransmission,
                 BeginTransmission 0x74, Write 0x02, EndTransmission,
                 RequestFrom 0x74 2]\<rparr>)) \<and>
   (state x = READY_C \<and> request_wait_period \<le> millis e - startRequest x \<and>
    status e \<noteq> 0 \<longrightarrow>
      Sen0590_C_loop e x =
        x\<lparr>calls := calls x @ [BeginTransmission 0x74, Write 0x02, EndTransmission]\<rparr> \<and>
      (request_wait_period \<le> millis e' - startRequest x \<and> status e' \<noteq> 0 \<longrightarrow>
         Sen0590_C_loop e' (Sen0590_C_loop e x) =
           x\<lparr>calls := calls x @
                [BeginTransmission 0x74, Write 0x02, EndTransmission,
                 BeginTransmission 0x74, Write 0x02, EndTransmission]\<rparr>) \<and>
      (request_wait_period \<le> millis e' - startRequest x \<and> status e' = 0 \<longrightarrow>
         Sen0590_C_loop e' (Sen0590_C_loop e x) =
           x\<lparr>state := READ_C, startRead := millis2 e',
             calls := calls x @
                [BeginTransmission 0x74, Write 0x02, EndTransmission,
                 BeginTransmission 0x74, Write 0x02, EndTransmission]\<rparr>))"
  by (simp add: Sen0590_B_loop_READY Sen0590_C_loop_READY request_wait_period_def
      not_less [symmetric])

text \<open>
  C6 at concrete inputs: the write fails with status 2 at 1060 and succeeds at 1061; the
  request had started at 1000.
\<close>

theorem C6_read_address_failure_witness:
  "Sen0590_B_loop \<lparr>millis = 1060, millis2 = 1060, status = 2, reply = []\<rparr>
     \<lparr>state = READY_B, startRequest = 1000, rx = [], calls = [], published = []\<rparr>
   = \<lparr>state = READY_B, startRequest = 1000, rx = [],
      calls = [BeginTransmission 0x74, Write 0x02, EndTransmission], published = []\<rparr> \<and>
   Sen0590_B_loop \<lparr>millis = 1061, millis2 = 1061, status = 0, reply = [0x01, 0x2C]\<rparr>
     (Sen0590_B_loop \<lparr>millis = 1060, millis2 = 1060, status = 2, reply = []\<rparr>
        \<lparr>state = READY_B, startRequest = 1000, rx = [], calls = [], published = []\<rparr>)
   = \<lparr>state = READ_B, startRequest = 1000, rx = [0x01, 0x2C],
      calls = [BeginTransmission 0x74, Write 0x02, EndTransmission,
               BeginTransmission 0x74, Write 0x02, EndTransmission, RequestFrom 0x74 2],
      published = []\<rparr> \<and>
   Sen0590_C_loop \<lparr>millis = 1060, millis2 = 1060, status = 2, reply = []\<rparr>
     \<lparr>state = READY_C, startRequest = 1000, rx = [], calls = [], published = [],
      startRead = 7\<rparr>
   = \<lparr>state = READY_C, startRequest = 1000, rx = [],
      calls = [BeginTransmission 0x74, Write 0x02, EndTransmission], published = [],
      startRead = 7\<rparr> \<and>
   Sen0590_C_loop \<lparr>millis = 1061, millis2 = 1062, status = 0, reply = []\<rparr>
     (Sen0590_C_loop \<lparr>millis = 1060, millis2 = 1060, status = 2, reply = []\<rparr>
        \<lparr>state = READY_C, startRequest = 1000, rx = [], calls = [], published = [],
         startRead = 7\<rparr>)
   = \<lparr>state = READ_C, startRequest = 1000, rx = [],
      calls = [BeginTransmission 0x74, Write 0x02, EndTransmission,
               BeginTransmission 0x74, Write 0x02, EndTransmission], published = [],
      startRead = 1062\<rparr>"
  (is "?B1 \<and> ?B2 \<and> ?C1 \<and> ?C2")
proof -
  let ?d = "\<lparr>state = READY_B, startRequest = 1000, rx = [], calls = [], published = []\<rparr>"
  let ?x = "\<lparr>state = READY_C, startRequest = 1000, rx = [], calls = [], published = [],
    startRead = 7\<rparr>"
  let ?e = "\<lparr>millis = 1060, millis2 = 1060, status = 2, reply = []\<rparr>"
  let ?e1 = "\<lparr>millis = 1061, millis2 = 1061, status = 0, reply = [0x01, 0x2C]\<rparr>"
  let ?e2 = "\<lparr>millis = 1061, millis2 = 1062, status = 0, reply = []\<rparr>"
  have failed_B: "state ?d = READY_B \<and> status ?e \<noteq> 0"
    by simp
  have failed_C:
    "state ?x = READY_C \<and> request_wait_period \<le> millis ?e - startRequest ?x \<and> status ?e \<noteq> 0"
    by (simp add: request_wait_period_def)
  have retry_C: "request_wait_period \<le> millis ?e2 - startRequest ?x \<and> status ?e2 = 0"
    by (simp add: request_wait_period_def)
  note B = C6_read_address_failure [of ?d ?e ?e1 ?x, THEN conjunct1, rule_format, OF failed_B]
  note C = C6_read_address_failure [of ?d ?e ?e2 ?x, THEN conjunct2, rule_format, OF failed_C]
  have b1: ?B1 using B [THEN conjunct1] by simp
  have b2: ?B2 using B [THEN conjunct2, THEN conjunct2] by simp
  have c1: ?C1 using C [THEN conjunct1] by simp
  have c2: ?C2 using C [THEN conjunct2, THEN conjunct2, rule_format, OF retry_C] by simp
  from b1 b2 c1 c2 show ?thesis by blast
qed

text \<open>
  C6 as stated fails for the wetness component, which ignores the status of the write of
  \<open>REG_DATA\<close>. With status 2 and no bytes received, \<open>loop()\<close> in \<open>READY\<close> still calls
  \<open>requestFrom\<close> and leaves the state at \<open>READ\<close>; with status 2 and four bytes received
  it publishes both values in that same call and ends in \<open>IDLE\<close>.
\<close>

theorem C6_leaf_status_counterexample:
  "LeafWetness_loop 1 9 \<lparr>millis = 1400, millis2 = 1400, status = 2, reply = []\<rparr>
     \<lparr>state = READY, startRequest = 1000, rx = [], calls = [], published = []\<rparr>
   = \<lparr>state = READ, startRequest = 1000, rx = [],
      calls = [BeginTransmission 0x61, Write 9, EndTransmission, RequestFrom 0x61 4,
               Available],
      published = []\<rparr> \<and>
   LeafWetness_loop 1 9
     \<lparr>millis = 1400, millis2 = 1400, status = 2, reply = [0x10, 0x00, 0xC8, 0x00]\<rparr>
     \<lparr>state = READY, startRequest = 1000, rx = [], calls = [], published = []\<rparr>
   = \<lparr>state = IDLE, startRequest = 1000, rx = [],
      calls = [BeginTransmission 0x61, Write 9, EndTransmission, RequestFrom 0x61 4,
               Available, Read, Read, Read, Read],
      published = [Wetness (16 / 100), Temperature 2]\<rparr>"
  by (simp add: LeafWetness_loop_READY LeafWetness_case_READ_four
      LeafWetness_case_READ_other sint_16_uint uint_word_cat_bytes)

text \<open>
  C7. In state \<open>READ\<close> of the rangefinder with two waits, with
  \<open>e = millis() - startRead\<close> on 32-bit unsigned words: when \<open>e < read_wait_period = 20\<close>,
  \<open>loop()\<close> changes nothing and makes no call on the bus; when \<open>e \<ge> 20\<close>, it requests two
  bytes, reads twice without asking how many bytes are available, publishes the distance
  decoded from the two values read (\<open>-1\<close> standing for a byte the sensor did not send),
  and ends in \<open>IDLE\<close>.
\<close>

theorem C7_read_after_fixed_wait:
  "read_wait_period = 20 \<and>
   (state x = READ_C \<longrightarrow>
      (millis e - startRead x < read_wait_period \<longrightarrow> Sen0590_C_loop e x = x) \<and>
      (read_wait_period \<le> millis e - startRead x \<longrightarrow>
         Sen0590_C_loop e x =
           x\<lparr>state := IDLE_C, rx := [],
             calls := calls x @ [RequestFrom 0x74 2, Read, Read],
             published := published x @
               [Distance (read_or_minus1 (take 2 (reply e)) 0 * 256 +
                          read_or_minus1 (take 2 (reply e)) 1 + 10)]\<rparr>))"
  by (simp add: Sen0590_C_loop_READ read_wait_period_def not_less [symmetric])

text \<open>
  C7 at concrete inputs, the read phase having started at 1040: at 1059 nothing happens;
  at 1060 the bytes \<open>0x01, 0x2C\<close> give 310; at 1065, with no byte sent at all, both reads
  return \<open>-1\<close> and \<open>-1 * 256 - 1 + 10 = -247\<close> is published.
\<close>

theorem C7_read_after_fixed_wait_witness:
  "Sen0590_C_loop \<lparr>millis = 1059, millis2 = 1059, status = 0, reply = [0x01, 0x2C]\<rparr>
     \<lparr>state = READ_C, startRequest = 1000, rx = [], calls = [], published = [],
      startRead = 1040\<rparr>
   = \<lparr>state = READ_C, startRequest = 1000, rx = [], calls = [], published = [],
      startRead = 1040\<rparr> \<and>
   Sen0590_C_loop \<lparr>millis = 1060, millis2 = 1060, status = 0, reply = [0x01, 0x2C]\<rparr>
     \<lparr>state = READ_C, startRequest = 1000, rx = [], calls = [], published = [],
      startRead = 1040\<rparr>
   = \<lparr>state = IDLE_C, startRequest = 1000, rx = [],
      calls = [RequestFrom 0x74 2, Read, Read], published = [Distance 310],
      startRead = 1040\<rparr> \<and>
   Sen0590_C_loop \<lparr>millis = 1065, millis2 = 1065, status = 0, reply = []\<rparr>
     \<lparr>state = READ_C, startRequest = 1000, rx = [], calls = [], published = [],
      startRead = 1040\<rparr>
   = \<lparr>state = IDLE_C, startRequest = 1000, rx = [],
      calls = [RequestFrom 0x74 2, Read, Read], published = [Distance (- 247)],
      startRead = 1040\<rparr>"
  (is "?early \<and> ?due \<and> ?empty")
proof -
  let ?x = "\<lparr>state = READ_C, startRequest = 1000, rx = [], calls = [], published = [],
    startRead = 1040\<rparr>"
  have in_READ: "state ?x = READ_C" by simp
  note at = C7_read_after_fixed_wait [THEN conjunct2, rule_format, OF in_READ]
  have early: ?early
    using at [of "\<lparr>millis = 1059, millis2 = 1059, status = 0, reply = [0x01, 0x2C]\<rparr>",
        THEN conjunct1]
    by (simp add: read_wait_period_def)
  have due: ?due
    using at [of "\<lparr>millis = 1060, millis2 = 1060, status = 0, reply = [0x01, 0x2C]\<rparr>",
        THEN conjunct2]
    by (simp add: read_wait_period_def read_or_minus1_def)
  have empty: ?empty
    using at [of "\<lparr>millis = 1065, millis2 = 1065, status = 0, reply = []\<rparr>",
        THEN conjunct2]
    by (simp add: read_wait_period_def read_or_minus1_def)
  from early due empty show ?thesis by blast
qed

text \<open>
  C8. In state \<open>IDLE\<close>, \<open>loop()\<close> of each of the three components returns the component
  and its surroundings exactly as they were: same state and timers, no call on the bus,
  nothing published. The same holds for any sequence of calls of \<open>loop()\<close>, whatever the
  environment answers.
\<close>

theorem C8_idle_loop_changes_nothing:
  "(state c = IDLE \<longrightarrow>
      LeafWetness_loop r1 r2 e c = c \<and> fold (LeafWetness_loop r1 r2) es c = c) \<and>
   (state d = IDLE_B \<longrightarrow>
      Sen0590_B_loop e d = d \<and> fold Sen0590_B_loop es d = d) \<and>
   (state x = IDLE_C \<longrightarrow>
      Sen0590_C_loop e x = x \<and> fold Sen0590_C_loop es x = x)"
  by (simp add: LeafWetness_loop_IDLE Sen0590_B_loop_IDLE Sen0590_C_loop_IDLE
      LeafWetness_fold_IDLE Sen0590_B_fold_IDLE Sen0590_C_fold_IDLE)

text \<open>
  C8 on the components as constructed, which start in \<open>IDLE\<close>: three calls of \<open>loop()\<close>
  at different times, with failing and succeeding bus answers, leave each as constructed.
\<close>

theorem C8_idle_loop_changes_nothing_witness:
  "fold (LeafWetness_loop 1 9)
     [\<lparr>millis = 10, millis2 = 10, status = 0, reply = [1, 2, 3, 4]\<rparr>,
      \<lparr>millis = 400, millis2 = 400, status = 2, reply = []\<rparr>,
      \<lparr>millis = 3, millis2 = 3, status = 0, reply = [7]\<rparr>] LeafWetness_init
   = LeafWetness_init \<and>
   fold Sen0590_B_loop
     [\<lparr>millis = 10, millis2 = 10, status = 0, reply = [1, 2, 3, 4]\<rparr>,
      \<lparr>millis = 400, millis2 = 400, status = 2, reply = []\<rparr>,
      \<lparr>millis = 3, millis2 = 3, status = 0, reply = [7]\<rparr>] Sen0590_B_init
   = Sen0590_B_init \<and>
   fold Sen0590_C_loop
     [\<lparr>millis = 10, millis2 = 10, status = 0, reply = [1, 2, 3, 4]\<rparr>,
      \<lparr>millis = 400, millis2 = 400, status = 2, reply = []\<rparr>,
      \<lparr>millis = 3, millis2 = 3, status = 0, reply = [7]\<rparr>] Sen0590_C_init
   = Sen0590_C_init \<and>
   calls LeafWetness_init = [] \<and> published LeafWetness_init = [] \<and>
   state LeafWetness_init = IDLE \<and> state Sen0590_B_init = IDLE_B \<and>
   state Sen0590_C_init = IDLE_C"
proof -
  let ?es = "[\<lparr>millis = 10, millis2 = 10, status = 0, reply = [1, 2, 3, 4]\<rparr>,
      \<lparr>millis = 400, millis2 = 400, status = 2, reply = []\<rparr>,
      \<lparr>millis = 3, millis2 = 3, status = 0, reply = [7]\<rparr>]"
  have idle: "state LeafWetness_init = IDLE" "state Sen0590_B_init = IDLE_B"
    "state Sen0590_C_init = IDLE_C"
    by (simp_all add: LeafWetness_init_def Sen0590_B_init_def Sen0590_C_init_def)
  note all = C8_idle_loop_changes_nothing [of LeafWetness_init 1 9 _ ?es Sen0590_B_init
      Sen0590_C_init]
  have "calls LeafWetness_init = []" "published LeafWetness_init = []"
    by (simp_all add: LeafWetness_init_def)
  with idle all show ?thesis by blast
qed

text \<open>
  C9. In state \<open>READ\<close> of the wetness component with a number of buffered bytes other than
  4, and of the rangefinder with a single wait with a number other than 2, \<open>loop()\<close> only
  asks \<open>Wire.available()\<close>: it reads no byte, publishes nothing and stays in \<open>READ\<close>.
  Since nothing it depends on has changed, any number of further calls does the same.
  \<open>loop()\<close> of the wetness component leaves \<open>READ\<close> exactly when it finds 4 bytes;
  \<open>loop()\<close> of the rangefinder never sets a state other than \<open>READ\<close> from \<open>READ\<close>.
\<close>

theorem C9_read_keeps_polling:
  "(state c = READ \<and> length (rx c) \<noteq> 4 \<longrightarrow>
      LeafWetness_loop r1 r2 e c = c\<lparr>calls := calls c @ [Available]\<rparr> \<and>
      fold (LeafWetness_loop r1 r2) es c =
        c\<lparr>calls := calls c @ replicate (length es) Available\<rparr>) \<and>
   (state d = READ_B \<and> length (rx d) \<noteq> 2 \<longrightarrow>
      Sen0590_B_loop e d = d\<lparr>calls := calls d @ [Available]\<rparr> \<and>
      fold Sen0590_B_loop es d =
        d\<lparr>calls := calls d @ replicate (length es) Available\<rparr>) \<and>
   (state c = READ \<longrightarrow>
      state (LeafWetness_loop r1 r2 e c) = (if length (rx c) = 4 then IDLE else READ)) \<and>
   (state d = READ_B \<longrightarrow> state (Sen0590_B_loop e d) = READ_B)"
proof -
  have "state c = READ \<Longrightarrow> length (rx c) \<noteq> 4 \<Longrightarrow>
      LeafWetness_loop r1 r2 e c = c\<lparr>calls := calls c @ [Available]\<rparr>"
    by (simp add: LeafWetness_loop_READ LeafWetness_case_READ_other)
  moreover have "state d = READ_B \<Longrightarrow> length (rx d) \<noteq> 2 \<Longrightarrow>
      Sen0590_B_loop e d = d\<lparr>calls := calls d @ [Available]\<rparr>"
    by (simp add: Sen0590_B_loop_READ)
  moreover have "state c = READ \<Longrightarrow>
      state (LeafWetness_loop r1 r2 e c) = (if length (rx c) = 4 then IDLE else READ)"
    by (simp add: LeafWetness_loop_READ LeafWetness_case_READ_state)
  moreover have "state d = READ_B \<Longrightarrow> state (Sen0590_B_loop e d) = READ_B"
    by (simp add: Sen0590_B_loop_READ)
  ultimately show ?thesis
    using LeafWetness_fold_READ [of c r1 r2 es] Sen0590_B_fold_READ [of d es] by blast
qed

text \<open>
  C9 at concrete inputs: the wetness component with three of its four bytes buffered, and
  the rangefinder with none, each polled three times.
\<close>

theorem C9_read_keeps_polling_witness:
  "fold (LeafWetness_loop 1 9)
     [\<lparr>millis = 1400, millis2 = 1400, status = 0, reply = [1]\<rparr>,
      \<lparr>millis = 1500, millis2 = 1500, status = 0, reply = [1]\<rparr>,
      \<lparr>millis = 99000, millis2 = 99000, status = 0, reply = [1]\<rparr>]
     \<lparr>state = READ, startRequest = 1000, rx = [0x10, 0x00, 0xC8], calls = [],
      published = []\<rparr>
   = \<lparr>state = READ, startRequest = 1000, rx = [0x10, 0x00, 0xC8],
      calls = [Available, Available, Available], published = []\<rparr> \<and>
   fold Sen0590_B_loop
     [\<lparr>millis = 1400, millis2 = 1400, status = 0, reply = [1]\<rparr>,
      \<lparr>millis = 1500, millis2 = 1500, status = 0, reply = [1]\<rparr>,
      \<lparr>millis = 99000, millis2 = 99000, status = 0, reply = [1]\<rparr>]
     \<lparr>state = READ_B, startRequest = 1000, rx = [], calls = [], published = []\<rparr>
   = \<lparr>state = READ_B, startRequest = 1000, rx = [],
      calls = [Available, Available, Available], published = []\<rparr> \<and>
   state (LeafWetness_loop 1 9 \<lparr>millis = 1400, millis2 = 1400, status = 0, reply = [1]\<rparr>
     \<lparr>state = READ, startRequest = 1000, rx = [0x10, 0x00, 0xC8], calls = [],
      published = []\<rparr>) = READ \<and>
   state (Sen0590_B_loop \<lparr>millis = 1400, millis2 = 1400, status = 0, reply = [1]\<rparr>
     \<lparr>state = READ_B, startRequest = 1000, rx = [], calls = [], published = []\<rparr>) = READ_B"
  (is "?leaf \<and> ?sen \<and> ?leaf1 \<and> ?sen1")
proof -
  let ?e = "\<lparr>millis = 1400, millis2 = 1400, status = 0, reply = [1]\<rparr>"
  let ?es = "[\<lparr>millis = 1400, millis2 = 1400, status = 0, reply = [1]\<rparr>,
      \<lparr>millis = 1500, millis2 = 1500, status = 0, reply = [1]\<rparr>,
      \<lparr>millis = 99000, millis2 = 99000, status = 0, reply = [1]\<rparr>]"
  let ?c = "\<lparr>state = READ, startRequest = 1000, rx = [0x10, 0x00, 0xC8], calls = [],
      published = []\<rparr>"
  let ?d = "\<lparr>state = READ_B, startRequest = 1000, rx = [], calls = [], published = []\<rparr>"
  have short_c: "state ?c = READ \<and> length (rx ?c) \<noteq> 4" by simp
  have short_d: "state ?d = READ_B \<and> length (rx ?d) \<noteq> 2" by simp
  have in_c: "state ?c = READ" by simp
  have in_d: "state ?d = READ_B" by simp
  note all = C9_read_keeps_polling [of ?c 1 9 ?e ?es ?d]
  have three: "replicate (length ?es) Available = [Available, Available, Available]"
    by (simp add: numeral_3_eq_3)
  from three all [THEN conjunct1, rule_format, OF short_c, THEN conjunct2]
  have leaf: ?leaf
    by simp
  from three all [THEN conjunct2, THEN conjunct1, rule_format, OF short_d, THEN conjunct2]
  have sen: ?sen
    by simp
  have leaf1: ?leaf1
    using all [THEN conjunct2, THEN conjunct2, THEN conjunct1, rule_format, OF in_c]
    by simp
  have sen1: ?sen1
    using all [THEN conjunct2, THEN conjunct2, THEN conjunct2, rule_format, OF in_d]
    by simp
  from leaf sen leaf1 sen1 show ?thesis by blast
qed

text \<open>
  C10. In state \<open>REQUEST\<close>, \<open>loop()\<close> of each component writes the measurement request,
  sets \<open>startRequest\<close> to the current time and moves on to the waiting phase (\<open>WAITING\<close>,
  or \<open>READY\<close> in the file with two waits), whatever status \<open>Wire.endTransmission()\<close>
  returned: the result does not depend on it. From there no number of calls of \<open>loop()\<close>
  brings the state back to \<open>REQUEST\<close>, so the request is not written again before the
  next \<open>update()\<close>.
\<close>

theorem C10_request_status_ignored:
  "(state c = REQUEST \<longrightarrow>
      LeafWetness_loop r1 r2 e c =
        c\<lparr>state := WAITING, startRequest := millis e,
          calls := calls c @ [BeginTransmission 0x61, Write r1, EndTransmission]\<rparr> \<and>
      LeafWetness_loop r1 r2 (e\<lparr>status := s\<rparr>) c = LeafWetness_loop r1 r2 e c \<and>
      state (fold (LeafWetness_loop r1 r2) es (LeafWetness_loop r1 r2 e c)) \<noteq> REQUEST) \<and>
   (state d = REQUEST_B \<longrightarrow>
      Sen0590_B_loop e d =
        d\<lparr>state := WAITING_B, startRequest := millis e,
          calls := calls d @
            [BeginTransmission 0x74, Write 0x10, Write 0xB0, EndTransmission]\<rparr> \<and>
      Sen0590_B_loop (e\<lparr>status := s\<rparr>) d = Sen0590_B_loop e d \<and>
      state (fold Sen0590_B_loop es (Sen0590_B_loop e d)) \<noteq> REQUEST_B) \<and>
   (state x = REQUEST_C \<longrightarrow>
      Sen0590_C_loop e x =
        x\<lparr>state := READY_C, startRequest := millis e,
          calls := calls x @
            [BeginTransmission 0x74, Write 0x10, Write 0xB0, EndTransmission]\<rparr> \<and>
      Sen0590_C_loop (e\<lparr>status := s\<rparr>) x = Sen0590_C_loop e x \<and>
      state (fold Sen0590_C_loop es (Sen0590_C_loop e x)) \<noteq> REQUEST_C)"
proof -
  have "state c = REQUEST \<Longrightarrow>
      state (fold (LeafWetness_loop r1 r2) es (LeafWetness_loop r1 r2 e c)) \<noteq> REQUEST"
    by (rule LeafWetness_fold_not_REQUEST) (simp add: LeafWetness_loop_REQUEST)
  moreover have "state d = REQUEST_B \<Longrightarrow>
      state (fold Sen0590_B_loop es (Sen0590_B_loop e d)) \<noteq> REQUEST_B"
    by (rule Sen0590_B_fold_not_REQUEST) (simp add: Sen0590_B_loop_REQUEST)
  moreover have "state x = REQUEST_C \<Longrightarrow>
      state (fold Sen0590_C_loop es (Sen0590_C_loop e x)) \<noteq> REQUEST_C"
    by (rule Sen0590_C_fold_not_REQUEST) (simp add: Sen0590_C_loop_REQUEST)
  ultimately show ?thesis
    by (simp add: LeafWetness_loop_REQUEST Sen0590_B_loop_REQUEST Sen0590_C_loop_REQUEST)
qed

text \<open>
  C10 at concrete inputs: the request write fails with status 2 at time 1000, and each
  component is in its waiting phase afterwards, with \<open>startRequest = 1000\<close>.
\<close>

theorem C10_request_status_ignored_witness:
  "LeafWetness_loop 1 9 \<lparr>millis = 1000, millis2 = 1000, status = 2, reply = []\<rparr>
     \<lparr>state = REQUEST, startRequest = 0, rx = [], calls = [], published = []\<rparr>
   = \<lparr>state = WAITING, startRequest = 1000, rx = [],
      calls = [BeginTransmission 0x61, Write 1, EndTransmission], published = []\<rparr> \<and>
   Sen0590_B_loop \<lparr>millis = 1000, millis2 = 1000, status = 2, reply = []\<rparr>
     \<lparr>state = REQUEST_B, startRequest = 0, rx = [], calls = [], published = []\<rparr>
   = \<lparr>state = WAITING_B, startRequest = 1000, rx = [],
      calls = [BeginTransmission 0x74, Write 0x10, Write 0xB0, EndTransmission],
      published = []\<rparr> \<and>
   Sen0590_C_loop \<lparr>millis = 1000, millis2 = 1000, status = 2, reply = []\<rparr>
     \<lparr>state = REQUEST_C, startRequest = 0, rx = [], calls = [], published = [],
      startRead = 0\<rparr>
   = \<lparr>state = READY_C, startRequest = 1000, rx = [],
      calls = [BeginTransmission 0x74, Write 0x10, Write 0xB0, EndTransmission],
      published = [], startRead = 0\<rparr>"
  (is "?leaf \<and> ?single \<and> ?double")
proof -
  let ?e = "\<lparr>millis = 1000, millis2 = 1000, status = 2, reply = []\<rparr>"
  let ?c = "\<lparr>state = REQUEST, startRequest = 0, rx = [], calls = [], published = []\<rparr>"
  let ?d = "\<lparr>state = REQUEST_B, startRequest = 0, rx = [], calls = [], published = []\<rparr>"
  let ?x = "\<lparr>state = REQUEST_C, startRequest = 0, rx = [], calls = [], published = [],
      startRead = 0\<rparr>"
  have armed: "state ?c = REQUEST" "state ?d = REQUEST_B" "state ?x = REQUEST_C"
    by simp_all
  note all = C10_request_status_ignored [of ?c 1 9 ?e 0 "[]" ?d ?x]
  have leaf: ?leaf
    using all [THEN conjunct1, rule_format, OF armed(1), THEN conjunct1] by simp
  have single: ?single
    using all [THEN conjunct2, THEN conjunct1, rule_format, OF armed(2), THEN conjunct1]
    by simp
  have double: ?double
    using all [THEN conjunct2, THEN conjunct2, rule_format, OF armed(3), THEN conjunct1]
    by simp
  from leaf single double show ?thesis by blast
qed

end
